theory Spec2Isabelle
  imports Main "HOL-Library.Log_Nat"
begin

section \<open>Machine integers and durations\<close>

text \<open>
  Go's \<open>int64\<close> (and \<open>int\<close> on 64-bit targets) is modelled as \<open>int\<close> with the
  two's-complement wrap-around written out: every arithmetic result is passed through
  \<open>i64\<close>. \<open>time.Duration\<close> is an \<open>int64\<close> count of nanoseconds.
\<close>

definition i64 :: "int \<Rightarrow> int" where
  "i64 x = (x + 9223372036854775808) mod 18446744073709551616 - 9223372036854775808"

text \<open>Go's integer division truncates towards zero.\<close>

definition quot :: "int \<Rightarrow> int \<Rightarrow> int" where
  "quot a b = sgn a * sgn b * (\<bar>a\<bar> div \<bar>b\<bar>)"

text \<open>\<open>func (d Duration) Microseconds() int64 { return int64(d) / 1e3 }\<close>\<close>

definition Microseconds :: "int \<Rightarrow> int" where
  "Microseconds d = quot d 1000"

text \<open>\<open>time.Duration(x) * time.Microsecond\<close>\<close>

definition micros_to_Duration :: "int \<Rightarrow> int" where
  "micros_to_Duration x = i64 (x * 1000)"

text \<open>The idiom \<open>if x < 0 { x = -x }\<close> on an \<open>int64\<close>.\<close>

definition negate_if_negative :: "int \<Rightarrow> int" where
  "negate_if_negative x = (if x < 0 then i64 (- x) else x)"


section \<open>pkg/stats/jitter.go\<close>

record JitterCalculator =
  lastTimestamp :: int
  interarrival :: int
  jitter :: int
  count :: int
  initialized :: bool

definition NewJitterCalculator :: JitterCalculator where
  "NewJitterCalculator =
     \<lparr>lastTimestamp = 0, interarrival = 0, jitter = 0, count = 0, initialized = False\<rparr>"

definition jc_AddSample :: "JitterCalculator \<Rightarrow> int \<Rightarrow> JitterCalculator" where
  "jc_AddSample jc rtt =
     (let rttMicros = Microseconds rtt in
      if \<not> initialized jc
      then jc\<lparr>lastTimestamp := rttMicros, initialized := True\<rparr>
      else
        let arrival = rttMicros;
            d = negate_if_negative (i64 (arrival - lastTimestamp jc));
            diff = negate_if_negative (i64 (d - jitter jc))
        in jc\<lparr>jitter := i64 (jitter jc + quot diff 16),
               lastTimestamp := arrival,
               count := i64 (count jc + 1)\<rparr>)"

definition jc_Jitter :: "JitterCalculator \<Rightarrow> int" where
  "jc_Jitter jc = jitter jc"

definition jc_JitterDuration :: "JitterCalculator \<Rightarrow> int" where
  "jc_JitterDuration jc = micros_to_Duration (jitter jc)"

definition jc_Count :: "JitterCalculator \<Rightarrow> int" where
  "jc_Count jc = count jc"

text \<open>
  The loop \<open>for _, rtt := range rtts { jc.AddSample(rtt) }\<close> of
  \<open>CalculateJitterStats\<close>, started from any calculator.
\<close>

definition jc_feed :: "JitterCalculator \<Rightarrow> int list \<Rightarrow> JitterCalculator" where
  "jc_feed jc rtts = foldl jc_AddSample jc rtts"

section \<open>Go's float64\<close>

text \<open>
  A \<open>float64\<close> is an IEEE 754 binary64 value: a finite value (kept as the rational number
  it denotes), an infinity or a NaN. Every arithmetic operation computes the exact rational
  result and rounds it once, to the nearest representable value with ties to even
  (\<open>f64_round\<close>): 53 significant bits, exponents down to the subnormal spacing \<open>2^-1074\<close>,
  overflow to an infinity from \<open>2^1024\<close>. Each operation of an expression is rounded on
  its own, as the gc compiler does on amd64 (no fused multiply-add). The sign of a zero is
  not kept: the program never divides a non-zero value by a zero, which is the only place
  where it could be observed.
\<close>

datatype f64 = Fin rat | PInf | NInf | NaN

definition pow2 :: "int \<Rightarrow> rat" where
  "pow2 e = (if 0 \<le> e then of_int (2 ^ nat e) else 1 / of_int (2 ^ nat (- e)))"

text \<open>For \<open>q > 0\<close>, \<open>ilog2 q\<close> is the exponent \<open>e\<close> with \<open>2^e \<le> q < 2^(e+1)\<close>.\<close>

definition ilog2 :: "rat \<Rightarrow> int" where
  "ilog2 q = (let (a, b) = quotient_of q; d = bitlen a - bitlen b
              in if pow2 d \<le> q then d else d - 1)"

definition round_half_even :: "rat \<Rightarrow> int" where
  "round_half_even x =
     (let f = \<lfloor>x\<rfloor>; r = x - of_int f
      in if r < 1 / 2 then f else if 1 / 2 < r then f + 1 else if even f then f else f + 1)"

definition f64_round :: "rat \<Rightarrow> f64" where
  "f64_round q =
     (if q = 0 then Fin 0
      else let e = max (ilog2 \<bar>q\<bar> - 52) (- 1074);
               r = of_int (round_half_even (q / pow2 e)) * pow2 e
           in if 1024 \<le> ilog2 \<bar>r\<bar> then (if 0 < q then PInf else NInf) else Fin r)"

definition f64_inf :: "bool \<Rightarrow> f64" where
  "f64_inf positive = (if positive then PInf else NInf)"

fun f64_neg :: "f64 \<Rightarrow> f64" where
  "f64_neg (Fin a) = Fin (- a)"
| "f64_neg PInf = NInf"
| "f64_neg NInf = PInf"
| "f64_neg NaN = NaN"

fun f64_add :: "f64 \<Rightarrow> f64 \<Rightarrow> f64" where
  "f64_add (Fin a) (Fin b) = f64_round (a + b)"
| "f64_add NaN _ = NaN"
| "f64_add _ NaN = NaN"
| "f64_add PInf NInf = NaN"
| "f64_add NInf PInf = NaN"
| "f64_add PInf _ = PInf"
| "f64_add NInf _ = NInf"
| "f64_add _ PInf = PInf"
| "f64_add _ NInf = NInf"

definition f64_sub :: "f64 \<Rightarrow> f64 \<Rightarrow> f64" where
  "f64_sub x y = f64_add x (f64_neg y)"

fun f64_mul :: "f64 \<Rightarrow> f64 \<Rightarrow> f64" where
  "f64_mul (Fin a) (Fin b) = f64_round (a * b)"
| "f64_mul NaN _ = NaN"
| "f64_mul _ NaN = NaN"
| "f64_mul (Fin a) PInf = (if a = 0 then NaN else f64_inf (0 < a))"
| "f64_mul (Fin a) NInf = (if a = 0 then NaN else f64_inf (a < 0))"
| "f64_mul PInf (Fin b) = (if b = 0 then NaN else f64_inf (0 < b))"
| "f64_mul NInf (Fin b) = (if b = 0 then NaN else f64_inf (b < 0))"
| "f64_mul PInf PInf = PInf"
| "f64_mul NInf NInf = PInf"
| "f64_mul PInf NInf = NInf"
| "f64_mul NInf PInf = NInf"

fun f64_div :: "f64 \<Rightarrow> f64 \<Rightarrow> f64" where
  "f64_div (Fin a) (Fin b) =
     (if b = 0 then (if a = 0 then NaN else f64_inf (0 < a)) else f64_round (a / b))"
| "f64_div NaN _ = NaN"
| "f64_div _ NaN = NaN"
| "f64_div (Fin a) PInf = Fin 0"
| "f64_div (Fin a) NInf = Fin 0"
| "f64_div PInf (Fin b) = f64_inf (0 \<le> b)"
| "f64_div NInf (Fin b) = f64_inf (b < 0)"
| "f64_div PInf PInf = NaN"
| "f64_div PInf NInf = NaN"
| "f64_div NInf PInf = NaN"
| "f64_div NInf NInf = NaN"

text \<open>The comparison \<open>x < y\<close>; \<open>x > y\<close> is \<open>f64_less y x\<close>. Comparisons with NaN are false.\<close>

fun f64_less :: "f64 \<Rightarrow> f64 \<Rightarrow> bool" where
  "f64_less (Fin a) (Fin b) \<longleftrightarrow> a < b"
| "f64_less NaN _ \<longleftrightarrow> False"
| "f64_less _ NaN \<longleftrightarrow> False"
| "f64_less NInf NInf \<longleftrightarrow> False"
| "f64_less NInf _ \<longleftrightarrow> True"
| "f64_less _ NInf \<longleftrightarrow> False"
| "f64_less PInf _ \<longleftrightarrow> False"
| "f64_less _ PInf \<longleftrightarrow> True"

text \<open>The conversion \<open>float64(i)\<close> of an integer.\<close>

definition f64_of_int :: "int \<Rightarrow> f64" where
  "f64_of_int i = f64_round (of_int i)"

definition trunc_to_zero :: "rat \<Rightarrow> int" where
  "trunc_to_zero q = (if 0 \<le> q then \<lfloor>q\<rfloor> else - \<lfloor>- q\<rfloor>)"

text \<open>
  The conversions \<open>int64(x)\<close> and \<open>int(x)\<close> discard the fraction. For a NaN, an infinity or
  a value outside \<open>int64\<close> the Go specification leaves the result to the implementation;
  the model takes the value amd64 produces, \<open>-2^63\<close>.
\<close>

fun f64_to_int64 :: "f64 \<Rightarrow> int" where
  "f64_to_int64 (Fin q) =
     (if - 9223372036854775808 \<le> trunc_to_zero q \<and> trunc_to_zero q < 9223372036854775808
      then trunc_to_zero q else - 9223372036854775808)"
| "f64_to_int64 _ = - 9223372036854775808"

section \<open>pkg/stats/histogram.go\<close>

datatype panic = IndexOutOfRange | MakeSliceCapOutOfRange

text \<open>The bounds-checked read \<open>s[i]\<close> of a slice.\<close>

definition index :: "int list \<Rightarrow> int \<Rightarrow> panic + int" where
  "index s i = (if 0 \<le> i \<and> i < int (length s) then Inr (s ! nat i) else Inl IndexOutOfRange)"

record LatencyHistogram =
  samples :: "int list"
  sorted' :: "int list"
  isDirty :: bool
  bucketSize :: int

text \<open>The capacity only sizes the allocation; the callers pass a length.\<close>

definition NewLatencyHistogram :: "nat \<Rightarrow> LatencyHistogram" where
  "NewLatencyHistogram capacity =
     \<lparr>samples = [], sorted' = [], isDirty = False, bucketSize = 1000\<rparr>"

definition h_AddSample :: "LatencyHistogram \<Rightarrow> int \<Rightarrow> LatencyHistogram" where
  "h_AddSample h rtt = h\<lparr>samples := samples h @ [Microseconds rtt], isDirty := True\<rparr>"

definition h_AddSamples :: "LatencyHistogram \<Rightarrow> int list \<Rightarrow> LatencyHistogram" where
  "h_AddSamples h rtts = foldl h_AddSample h rtts"

text \<open>\<open>sort.Slice\<close> with \<open>less\<close> being \<open><\<close> on \<open>int64\<close>: the ascending arrangement.\<close>

definition ensureSorted :: "LatencyHistogram \<Rightarrow> LatencyHistogram" where
  "ensureSorted h =
     (if \<not> isDirty h \<and> length (sorted' h) > 0 then h
      else h\<lparr>sorted' := sort (samples h), isDirty := False\<rparr>)"

definition h_Count :: "LatencyHistogram \<Rightarrow> int" where
  "h_Count h = int (length (samples h))"

text \<open>
  The queries below change the receiver (they refresh the sorted copy), so each returns its
  value together with the histogram it leaves behind. In \<open>Min\<close> and \<open>Max\<close> the reads
  \<open>h.sorted[0]\<close> and \<open>h.sorted[len(h.sorted)-1]\<close> are always in range (lemma
  \<open>ensureSorted_nonempty\<close>); in \<open>Percentile\<close> the index comes from a float conversion, and
  an out-of-range read is the panic it is in Go.
\<close>

definition h_Min :: "LatencyHistogram \<Rightarrow> int \<times> LatencyHistogram" where
  "h_Min h =
     (if length (samples h) = 0 then (0, h)
      else let h' = ensureSorted h
           in (micros_to_Duration (sorted' h' ! 0), h'))"

definition h_Max :: "LatencyHistogram \<Rightarrow> int \<times> LatencyHistogram" where
  "h_Max h =
     (if length (samples h) = 0 then (0, h)
      else let h' = ensureSorted h
           in (micros_to_Duration (sorted' h' ! (length (sorted' h') - 1)), h'))"

definition h_Mean :: "LatencyHistogram \<Rightarrow> int" where
  "h_Mean h =
     (if length (samples h) = 0 then 0
      else let sum = foldl (\<lambda>sum sample. i64 (sum + sample)) 0 (samples h);
               mean = quot sum (int (length (samples h)))
           in micros_to_Duration mean)"

text \<open>\<open>sqrt\<close>: ten Newton steps \<open>z = (z + x/z) / 2\<close> from \<open>z = x\<close>.\<close>

primrec sqrt_loop :: "nat \<Rightarrow> f64 \<Rightarrow> f64 \<Rightarrow> f64" where
  "sqrt_loop 0 x z = z"
| "sqrt_loop (Suc i) x z = sqrt_loop i x (f64_div (f64_add z (f64_div x z)) (Fin 2))"

definition sqrt' :: "f64 \<Rightarrow> f64" where
  "sqrt' x = (if f64_less x (Fin 0) then Fin 0 else sqrt_loop 10 x x)"

definition h_StdDev :: "LatencyHistogram \<Rightarrow> int" where
  "h_StdDev h =
     (if length (samples h) < 2 then 0
      else let mean = Microseconds (h_Mean h);
               sumSquares = foldl (\<lambda>sumSquares sample.
                                     let diff = i64 (sample - mean)
                                     in i64 (sumSquares + i64 (diff * diff))) 0 (samples h);
               variance = quot sumSquares (int (length (samples h)));
               stddev = f64_to_int64 (sqrt' (f64_of_int variance))
           in micros_to_Duration stddev)"

definition h_Percentile :: "LatencyHistogram \<Rightarrow> f64 \<Rightarrow> panic + int \<times> LatencyHistogram" where
  "h_Percentile h p =
     (if length (samples h) = 0 then Inr (0, h)
      else if f64_less p (Fin 0) \<or> f64_less (Fin 100) p then Inr (0, h)
      else
        let h' = ensureSorted h;
            n = int (length (sorted' h'));
            idx = f64_mul (f64_div p (Fin 100)) (f64_of_int (i64 (n - 1)));
            lower = f64_to_int64 idx;
            upper = i64 (lower + 1);
            frac = f64_sub idx (f64_of_int lower)
        in if upper \<ge> n
           then (case index (sorted' h') lower of
                   Inl e \<Rightarrow> Inl e
                 | Inr v \<Rightarrow> Inr (micros_to_Duration v, h'))
           else (case index (sorted' h') lower of
                   Inl e \<Rightarrow> Inl e
                 | Inr lo \<Rightarrow>
                    (case index (sorted' h') upper of
                       Inl e \<Rightarrow> Inl e
                     | Inr hi \<Rightarrow>
                        let interpolated =
                              f64_add (f64_mul (f64_of_int lo) (f64_sub (Fin 1) frac))
                                      (f64_mul (f64_of_int hi) frac)
                        in Inr (micros_to_Duration (f64_to_int64 interpolated), h'))))"

definition h_P50 :: "LatencyHistogram \<Rightarrow> panic + int \<times> LatencyHistogram" where
  "h_P50 h = h_Percentile h (Fin 50)"

definition h_P90 :: "LatencyHistogram \<Rightarrow> panic + int \<times> LatencyHistogram" where
  "h_P90 h = h_Percentile h (Fin 90)"

definition h_P99 :: "LatencyHistogram \<Rightarrow> panic + int \<times> LatencyHistogram" where
  "h_P99 h = h_Percentile h (Fin 99)"

text \<open>The constant \<open>99.9\<close> is the \<open>float64\<close> nearest to 999/10.\<close>

definition h_P999 :: "LatencyHistogram \<Rightarrow> panic + int \<times> LatencyHistogram" where
  "h_P999 h = h_Percentile h (f64_round (999 / 10))"




section \<open>pkg/detect/bufferbloat.go\<close>

record BufferbloatResult =
  IdleLatencyP50 :: int
  IdleLatencyP99 :: int
  IdleLatencyMax :: int
  LoadLatencyP50 :: int
  LoadLatencyP99 :: int
  LoadLatencyMax :: int
  P50Increase :: f64
  P99Increase :: f64
  MaxIncrease :: f64
  IsBufferbloated :: bool
  Severity :: string
  Explanation :: string

text \<open>The zero value \<open>BufferbloatResult{}\<close>.\<close>

definition zero_result :: BufferbloatResult where
  "zero_result =
     \<lparr>IdleLatencyP50 = 0, IdleLatencyP99 = 0, IdleLatencyMax = 0,
      LoadLatencyP50 = 0, LoadLatencyP99 = 0, LoadLatencyMax = 0,
      P50Increase = Fin 0, P99Increase = Fin 0, MaxIncrease = Fin 0,
      IsBufferbloated = False, Severity = [], Explanation = []\<rparr>"

definition assessBufferbloat :: "BufferbloatResult \<Rightarrow> string \<times> string" where
  "assessBufferbloat result =
     (let p50Increase = P50Increase result;
          p99Increase = P99Increase result
      in if f64_less (Fin 5) p99Increase
         then (''Severe'', ''Latency increased dramatically under load. Buffer bloat is severe - consider optimizing buffer sizes or traffic shaping.'')
         else if f64_less (Fin 3) p99Increase
         then (''Moderate'', ''Significant latency increase under load. Moderate buffer bloat detected - network may benefit from QoS improvements.'')
         else if f64_less (Fin (3 / 2)) p99Increase \<or> f64_less (Fin 2) p50Increase
         then (''Mild'', ''Noticeable latency increase under load. Mild buffer bloat - monitor for potential issues.'')
         else (''None'', ''Latency remained stable under load. No significant buffer bloat detected.''))"

text \<open>
  The probe function \<open>probeFn\<close> is a callback with effects of its own (it talks to the
  network): here it is a function of the requested count and of a state \<open>'s\<close> of the world,
  and returns the new state with either an error \<open>'e\<close> or the round-trip times. \<open>Detect\<close>
  returns either its result or a failure: the error
  \<open>fmt.Errorf("failed to measure idle latency: %w", err)\<close> wrapping \<open>err\<close>, or a run-time
  panic.
\<close>

type_synonym ('s, 'e) probeFn = "int \<Rightarrow> 's \<Rightarrow> ('e + int list) \<times> 's"

datatype 'e failure = Errorf string 'e | Panicked panic

definition and_then :: "panic + 'a \<Rightarrow> ('a \<Rightarrow> panic + 'b) \<Rightarrow> panic + 'b" where
  "and_then r f = (case r of Inl e \<Rightarrow> Inl e | Inr v \<Rightarrow> f v)"

text \<open>
  The background goroutine calls \<open>probeFn(1)\<close> on every tick and drops the result. Its
  calls interleave with the measuring loop: \<open>ticks i\<close> is the number of them that happen
  before the \<open>i\<close>-th measurement, and \<open>ticks loadCount\<close> the number between the last
  measurement and the stop of the goroutine. Sleeping is not modelled.
\<close>

primrec background :: "('s, 'e) probeFn \<Rightarrow> nat \<Rightarrow> 's \<Rightarrow> 's" where
  "background probeFn 0 s = s"
| "background probeFn (Suc k) s = background probeFn k (snd (probeFn 1 s))"

text \<open>
  The loop \<open>for i := 0; i < loadCount; i++\<close> at iteration \<open>i\<close> with \<open>k\<close> iterations to go.
\<close>

fun measure_loaded ::
  "('s, 'e) probeFn \<Rightarrow> (nat \<Rightarrow> nat) \<Rightarrow> nat \<Rightarrow> nat \<Rightarrow> int list \<Rightarrow> 's \<Rightarrow> int list \<times> 's" where
  "measure_loaded probeFn ticks i 0 loadedLatencies s = (loadedLatencies, s)"
| "measure_loaded probeFn ticks i (Suc k) loadedLatencies s =
     (case probeFn 1 (background probeFn (ticks i) s) of
        (Inr (l # ls), s') \<Rightarrow> measure_loaded probeFn ticks (Suc i) k (loadedLatencies @ [l]) s'
      | (_, s') \<Rightarrow> measure_loaded probeFn ticks (Suc i) k loadedLatencies s')"

text \<open>
  The end of \<open>Detect\<close>, from \<open>// Calculate increase ratios\<close> on: it fills the three
  ratios, the flag and the assessment into a result that holds the six latencies.
\<close>

definition Detect_ratios :: "BufferbloatResult \<Rightarrow> BufferbloatResult" where
  "Detect_ratios result =
     (let result = (if Microseconds (IdleLatencyP50 result) > 0
                    then result\<lparr>P50Increase :=
                           f64_div (f64_of_int (Microseconds (LoadLatencyP50 result)))
                                   (f64_of_int (Microseconds (IdleLatencyP50 result)))\<rparr>
                    else result);
          result = (if Microseconds (IdleLatencyP99 result) > 0
                    then result\<lparr>P99Increase :=
                           f64_div (f64_of_int (Microseconds (LoadLatencyP99 result)))
                                   (f64_of_int (Microseconds (IdleLatencyP99 result)))\<rparr>
                    else result);
          result = (if Microseconds (IdleLatencyMax result) > 0
                    then result\<lparr>MaxIncrease :=
                           f64_div (f64_of_int (Microseconds (LoadLatencyMax result)))
                                   (f64_of_int (Microseconds (IdleLatencyMax result)))\<rparr>
                    else result);
          result = result\<lparr>IsBufferbloated :=
                     f64_less (Fin (3 / 2)) (P50Increase result) \<or>
                     f64_less (Fin 2) (P99Increase result)\<rparr>;
          (severity, explanation) = assessBufferbloat result
      in result\<lparr>Severity := severity, Explanation := explanation\<rparr>)"

text \<open>The part of \<open>Detect\<close> from \<open>// Calculate results\<close> on, given the two histograms.\<close>

definition Detect_calculate :: "LatencyHistogram \<Rightarrow> LatencyHistogram \<Rightarrow> panic + BufferbloatResult" where
  "Detect_calculate idleHist loadHist =
     and_then (h_P50 idleHist) (\<lambda>(idleP50, idleHist).
     and_then (h_P99 idleHist) (\<lambda>(idleP99, idleHist).
     let (idleMax, idleHist) = h_Max idleHist in
     and_then (h_P50 loadHist) (\<lambda>(loadP50, loadHist).
     and_then (h_P99 loadHist) (\<lambda>(loadP99, loadHist).
     let (loadMax, loadHist) = h_Max loadHist
     in Inr (Detect_ratios
               (zero_result\<lparr>IdleLatencyP50 := idleP50, IdleLatencyP99 := idleP99,
                  IdleLatencyMax := idleMax, LoadLatencyP50 := loadP50,
                  LoadLatencyP99 := loadP99, LoadLatencyMax := loadMax\<rparr>))))))"

definition Detect ::
  "('s, 'e) probeFn \<Rightarrow> (nat \<Rightarrow> nat) \<Rightarrow> int \<Rightarrow> int \<Rightarrow> 's \<Rightarrow> ('e failure + BufferbloatResult) \<times> 's" where
  "Detect probeFn ticks idleCount loadCount s =
     (case probeFn idleCount s of
        (Inl err, s) \<Rightarrow> (Inl (Errorf ''failed to measure idle latency: %w'' err), s)
      | (Inr idleLatencies, s) \<Rightarrow>
          let idleHist = h_AddSamples (NewLatencyHistogram (length idleLatencies)) idleLatencies
          in if loadCount < 0 then (Inl (Panicked MakeSliceCapOutOfRange), s)
             else
               let (loadedLatencies, s) = measure_loaded probeFn ticks 0 (nat loadCount) [] s;
                   s = background probeFn (ticks (nat loadCount)) s;
                   loadHist = h_AddSamples (NewLatencyHistogram (length loadedLatencies))
                                loadedLatencies
               in (case Detect_calculate idleHist loadHist of
                     Inl p \<Rightarrow> Inl (Panicked p)
                   | Inr result \<Rightarrow> Inr result, s))"

section \<open>Facts about the integer model\<close>




section \<open>The jitter estimator\<close>

lemma jc_feed_Nil: "jc_feed jc [] = jc"
  by (simp add: jc_feed_def)

lemma jc_feed_snoc: "jc_feed jc (rtts @ [rtt]) = jc_AddSample (jc_feed jc rtts) rtt"
  by (simp add: jc_feed_def)

lemma jc_feed_Cons: "jc_feed jc (rtt # rtts) = jc_feed (jc_AddSample jc rtt) rtts"
  by (simp add: jc_feed_def)

lemma jc_AddSample_lastTimestamp: "lastTimestamp (jc_AddSample jc rtt) = Microseconds rtt"
  by (simp add: jc_AddSample_def Let_def)

lemma jc_AddSample_initialized: "initialized (jc_AddSample jc rtt)"
  by (simp add: jc_AddSample_def Let_def)

lemma cons_replicate_Suc: "a # replicate (Suc n) v = (a # replicate n v) @ [v]"
  by (simp add: replicate_append_same)

lemma jc_AddSample_jitter:
  "initialized jc \<Longrightarrow>
   jitter (jc_AddSample jc rtt) =
     i64 (jitter jc +
          quot (negate_if_negative
                  (i64 (negate_if_negative (i64 (Microseconds rtt - lastTimestamp jc)) - jitter jc)))
               16)"
  by (simp add: jc_AddSample_def Let_def)

lemma jc_feed_constant_state:
  "initialized (jc_feed NewJitterCalculator (r # replicate n rtt)) \<and>
   lastTimestamp (jc_feed NewJitterCalculator (r # replicate n rtt)) =
     Microseconds (last (r # replicate n rtt))"
proof -
  have "r # replicate n rtt = butlast (r # replicate n rtt) @ [last (r # replicate n rtt)]"
    by (rule append_butlast_last_id [symmetric]) simp
  then have "jc_feed NewJitterCalculator (r # replicate n rtt) =
      jc_AddSample (jc_feed NewJitterCalculator (butlast (r # replicate n rtt)))
        (last (r # replicate n rtt))"
    by (metis jc_feed_snoc)
  then show ?thesis
    by (simp only: jc_AddSample_initialized jc_AddSample_lastTimestamp simp_thms)
qed

text \<open>
  A first sample of 10 ms followed by 12 ms samples: the estimate is 125 after the second
  sample and then grows by a sixteenth of itself at every further (identical) sample.
  After 642 samples of 12 ms it has reached 8796279064184456885.
\<close>

lemma jitter_after_642_constant_samples:
  "jitter (jc_feed NewJitterCalculator (10000000 # replicate 642 12000000)) = 8796279064184456885"
  by code_simp

lemma jitter_after_643_constant_samples:
  "jitter (jc_feed NewJitterCalculator (10000000 # replicate 643 12000000)) = - 9100697568013566176"
proof -
  let ?S = "jc_feed NewJitterCalculator (10000000 # replicate 642 12000000)"
  have "(10000000::int) # replicate 643 12000000 = (10000000 # replicate 642 12000000) @ [12000000]"
    using cons_replicate_Suc [of "10000000::int" 642 12000000] by simp
  then have "jc_feed NewJitterCalculator (10000000 # replicate 643 12000000) = jc_AddSample ?S 12000000"
    by (simp only: jc_feed_snoc)
  moreover have "initialized ?S" and "lastTimestamp ?S = 12000"
    using jc_feed_constant_state [of 10000000 642 12000000]
    by (simp_all add: Microseconds_def quot_def)
  ultimately show ?thesis
    by (simp add: jc_AddSample_jitter jitter_after_642_constant_samples Microseconds_def quot_def
        negate_if_negative_def i64_def)
qed

section \<open>Facts about the float64 model\<close>

lemma pow2_power_int: "pow2 e = power_int 2 e"
  by (simp add: pow2_def power_int_def inverse_eq_divide power_one_over [symmetric]
      del: power_one_over)

lemma pow2_pos: "0 < pow2 e"
  by (simp add: pow2_power_int)

lemma pow2_add: "pow2 (a + b) = pow2 a * pow2 b"
  by (simp add: pow2_power_int power_int_add)

lemma pow2_mono: "a \<le> b \<Longrightarrow> pow2 a \<le> pow2 b"
  by (simp add: pow2_power_int power_int_increasing)

lemma pow2_strict_mono: "a < b \<Longrightarrow> pow2 a < pow2 b"
  by (simp add: pow2_power_int power_int_strict_increasing)

lemma pow2_less_iff: "pow2 a < pow2 b \<longleftrightarrow> a < b"
  by (metis pow2_mono pow2_strict_mono not_less)

lemma pow2_nat: "pow2 (int n) = 2 ^ n"
  by (simp add: pow2_def)

lemma ilog2_bounds:
  assumes "0 < q"
  shows "pow2 (ilog2 q) \<le> q \<and> q < pow2 (ilog2 q + 1)"
proof -
  obtain a b where ab: "quotient_of q = (a, b)" by (cases "quotient_of q")
  then have b: "0 < b" and q: "q = of_int a / of_int b"
    by (simp_all add: quotient_of_denom_pos quotient_of_div)
  with assms have a: "0 < a"
    by (simp add: zero_less_divide_iff)
  define la where "la = bitlen a"
  define lb where "lb = bitlen b"
  have bits: "0 < x \<Longrightarrow> pow2 (bitlen x - 1) \<le> of_int x \<and> of_int x < pow2 (bitlen x)" for x
  proof -
    assume x: "0 < x"
    from bitlen_bounds [OF x]
    have lo: "2 ^ nat (bitlen x - 1) \<le> x" and hi: "x < 2 ^ nat (bitlen x)" by simp_all
    have "1 \<le> bitlen x"
    proof (rule ccontr)
      assume "\<not> 1 \<le> bitlen x"
      then have "nat (bitlen x) = 0" by simp
      with hi x show False by simp
    qed
    then have "pow2 (bitlen x - 1) = of_int (2 ^ nat (bitlen x - 1))"
      and "pow2 (bitlen x) = of_int (2 ^ nat (bitlen x))"
      by (simp_all add: pow2_def)
    with lo hi show ?thesis
      by (simp only: of_int_le_iff of_int_less_iff)
  qed
  have la: "pow2 (la - 1) \<le> of_int a" "of_int a < pow2 la"
   and lb: "pow2 (lb - 1) \<le> of_int b" "of_int b < pow2 lb"
    using bits [OF a] bits [OF b] by (simp_all add: la_def lb_def)
  have b': "(0::rat) < of_int b" using b by simp
  have lower: "pow2 (la - lb - 1) < q"
  proof -
    have "pow2 (la - lb - 1) * of_int b < pow2 (la - lb - 1) * pow2 lb"
      using lb(2) pow2_pos by (simp add: mult_strict_left_mono)
    also have "\<dots> = pow2 (la - 1)"
      by (simp add: pow2_add [symmetric])
    also have "\<dots> \<le> of_int a" by (rule la(1))
    finally show ?thesis
      using b' by (simp add: q pos_less_divide_eq)
  qed
  have upper: "q < pow2 (la - lb + 1)"
  proof -
    have "of_int a < pow2 la" by (rule la(2))
    also have "\<dots> = pow2 (la - lb + 1) * pow2 (lb - 1)"
      by (simp add: pow2_add [symmetric])
    also have "\<dots> \<le> pow2 (la - lb + 1) * of_int b"
      using lb(1) pow2_pos by (simp add: mult_left_mono less_imp_le)
    finally show ?thesis
      using b' by (simp add: q pos_divide_less_eq)
  qed
  show ?thesis
    using lower upper ab
    by (auto simp: ilog2_def la_def lb_def Let_def not_le intro: less_imp_le)
qed


lemma ilog2_unique:
  assumes "0 < q" and "pow2 e \<le> q" and "q < pow2 (e + 1)"
  shows "ilog2 q = e"
proof -
  from ilog2_bounds [OF assms(1)]
  have "pow2 (ilog2 q) \<le> q" and "q < pow2 (ilog2 q + 1)" by simp_all
  with assms(2,3) have "pow2 (ilog2 q) < pow2 (e + 1)" and "pow2 e < pow2 (ilog2 q + 1)"
    by simp_all
  then have "ilog2 q < e + 1" and "e < ilog2 q + 1"
    by (simp_all only: pow2_less_iff)
  then show ?thesis by simp
qed























section \<open>Facts about the histogram\<close>


lemma sort_nonempty: "xs \<noteq> [] \<Longrightarrow> sort xs \<noteq> []"
  by (metis length_sort length_0_conv)

lemma ensureSorted_nonempty: "samples h \<noteq> [] \<Longrightarrow> sorted' (ensureSorted h) \<noteq> []"
  by (simp add: ensureSorted_def sort_nonempty)










lemma empty_queries:
  assumes "samples h = []"
  shows "h_Min h = (0, h)" "h_Max h = (0, h)" "h_Mean h = 0" "h_StdDev h = 0"
    "h_Percentile h p = Inr (0, h)"
  using assms by (simp_all add: h_Min_def h_Max_def h_Mean_def h_StdDev_def h_Percentile_def)

lemma percentile_out_of_range:
  assumes "f64_less p (Fin 0) \<or> f64_less (Fin 100) p"
  shows "h_Percentile h p = Inr (0, h)"
  using assms by (simp add: h_Percentile_def)








section \<open>Facts about the detector\<close>






lemma Detect_ratios_IsBufferbloated:
  "IsBufferbloated (Detect_ratios r) \<longleftrightarrow>
     f64_less (Fin (3 / 2)) (P50Increase (Detect_ratios r)) \<or>
     f64_less (Fin 2) (P99Increase (Detect_ratios r))"
  by (simp add: Detect_ratios_def Let_def split_def)

lemma Detect_ratios_Severity:
  "Severity (Detect_ratios r) =
     (if f64_less (Fin 5) (P99Increase (Detect_ratios r)) then ''Severe''
      else if f64_less (Fin 3) (P99Increase (Detect_ratios r)) then ''Moderate''
      else if f64_less (Fin (3 / 2)) (P99Increase (Detect_ratios r)) \<or>
              f64_less (Fin 2) (P50Increase (Detect_ratios r)) then ''Mild''
      else ''None'')"
  by (simp add: Detect_ratios_def Let_def split_def assessBufferbloat_def)

lemma Detect_calculate_Inr:
  assumes "Detect_calculate idleHist loadHist = Inr r"
  shows "\<exists>r0 h1 h2. r = Detect_ratios r0 \<and>
           P50Increase r0 = Fin 0 \<and> P99Increase r0 = Fin 0 \<and> MaxIncrease r0 = Fin 0 \<and>
           h_P50 loadHist = Inr (LoadLatencyP50 r0, h1) \<and>
           h_P99 h1 = Inr (LoadLatencyP99 r0, h2) \<and>
           fst (h_Max h2) = LoadLatencyMax r0"
  using assms
  by (auto simp: Detect_calculate_def and_then_def zero_result_def
           split: sum.splits prod.splits)

lemma Detect_idle_error:
  assumes "probeFn idleCount s = (Inl e, s1)"
  shows "Detect probeFn ticks idleCount loadCount s
           = (Inl (Errorf ''failed to measure idle latency: %w'' e), s1)"
  using assms by (simp add: Detect_def)

lemma Detect_negative_loadCount:
  assumes "probeFn idleCount s = (Inr idleLatencies, s1)" and "loadCount < 0"
  shows "Detect probeFn ticks idleCount loadCount s = (Inl (Panicked MakeSliceCapOutOfRange), s1)"
  using assms by (simp add: Detect_def)

lemma Detect_idle_success:
  assumes "probeFn idleCount s = (Inr idleLatencies, s1)" and "\<not> loadCount < 0"
    and "ml = measure_loaded probeFn ticks 0 (nat loadCount) [] s1"
  shows "Detect probeFn ticks idleCount loadCount s =
           (case Detect_calculate
                   (h_AddSamples (NewLatencyHistogram (length idleLatencies)) idleLatencies)
                   (h_AddSamples (NewLatencyHistogram (length (fst ml))) (fst ml)) of
              Inl p \<Rightarrow> Inl (Panicked p)
            | Inr result \<Rightarrow> Inr result,
            background probeFn (ticks (nat loadCount)) (snd ml))"
  unfolding assms(3) using assms(1,2) by (simp add: Detect_def Let_def split_def)

lemma Detect_Inr:
  assumes "Detect probeFn ticks idleCount loadCount s = (Inr r, s')"
  shows "\<exists>idleHist loadHist. Detect_calculate idleHist loadHist = Inr r"
proof (cases "probeFn idleCount s")
  case (Pair res s1)
  show ?thesis
  proof (cases res)
    case (Inl e)
    with Pair assms show ?thesis by (simp add: Detect_idle_error)
  next
    case (Inr ls)
    show ?thesis
    proof (cases "loadCount < 0")
      case True
      with Pair Inr assms show ?thesis by (simp add: Detect_negative_loadCount)
    next
      case False
      define ml where "ml = measure_loaded probeFn ticks 0 (nat loadCount) [] s1"
      from Pair Inr have "probeFn idleCount s = (Inr ls, s1)" by simp
      from Detect_idle_success [OF this False ml_def] assms
      show ?thesis by (auto split: sum.splits)
    qed
  qed
qed




section \<open>Claims about the jitter estimator\<close>

text \<open>
  C5. A fresh jitter estimator fed the RTT sequence 10 ms, 12 ms, 10 ms, 14 ms has estimate
  0 after the first sample (which only seeds the previous sample value), 125 microseconds
  after the second (d = 2000, (2000 - 0) / 16 = 125 with truncating division), 242 after the
  third and 476 after the fourth: the values of the integer recurrence
  estimate := estimate + |d - estimate| / 16 with d = |v - previous|.
\<close>

theorem jitter_example_sequence:
  "jc_Jitter (jc_feed NewJitterCalculator [10000000]) = 0 \<and>
   jc_Jitter (jc_feed NewJitterCalculator [10000000, 12000000]) = 125 \<and>
   jc_Jitter (jc_feed NewJitterCalculator [10000000, 12000000, 10000000]) = 242 \<and>
   jc_Jitter (jc_feed NewJitterCalculator [10000000, 12000000, 10000000, 14000000]) = 476"
  by code_simp

text \<open>
  C9. The claim: for every sequence of AddSample calls the jitter estimate is at least 0.
  The code adds |d - estimate| / 16 also when d is below the estimate (its comment gives the
  RFC 3550 update J + (|D| - J) / 16, which would shrink the estimate there), so on a quiet
  path the estimate grows by a sixteenth of itself per sample until the \<open>int64\<close> addition
  wraps. Evaluated on a 10 ms sample followed by 643 samples of 12 ms, the estimate is
  negative.
\<close>

theorem jitter_estimate_negative_after_overflow:
  "jc_Jitter (jc_feed NewJitterCalculator (10000000 # replicate 643 12000000))
     = - 9100697568013566176"
  by (simp only: jc_Jitter_def jitter_after_643_constant_samples)

text \<open>
  C10. The claim: every AddSample call leaves the estimate unchanged or larger. The code
  means to add a non-negative amount to the estimate, but performs the addition in \<open>int64\<close>
  and lets the estimate grow without bound (the same slip as in C9: it adds
  |d - estimate| / 16 where its comment documents (|D| - J) / 16). At the call where the
  addition wraps the estimate falls: after a 10 ms sample and 642 samples of 12 ms, one more
  12 ms sample takes it from 8796279064184456885 to -9100697568013566176.
\<close>

theorem jitter_monotone_counterexample:
  "jc_Jitter (jc_AddSample (jc_feed NewJitterCalculator (10000000 # replicate 642 12000000)) 12000000)
     < jc_Jitter (jc_feed NewJitterCalculator (10000000 # replicate 642 12000000))"
proof -
  have "(10000000 # replicate 642 12000000) @ [12000000] = (10000000::int) # replicate 643 12000000"
    using cons_replicate_Suc [of "10000000::int" 642 12000000] by simp
  then have "jc_AddSample (jc_feed NewJitterCalculator (10000000 # replicate 642 12000000)) 12000000
      = jc_feed NewJitterCalculator (10000000 # replicate 643 12000000)"
    by (metis jc_feed_snoc)
  then show ?thesis
    by (simp add: jc_Jitter_def jitter_after_642_constant_samples jitter_after_643_constant_samples)
qed

section \<open>Claims about the histogram\<close>

text \<open>
  C8. On an empty distribution every query (Min, Max, Mean, StdDev, and Percentile for any
  \<open>p\<close>, a NaN included) returns the zero duration rather than failing; and on every
  distribution, empty or not, Percentile with \<open>p < 0\<close> or \<open>p > 100\<close> returns the zero
  duration.
\<close>

theorem empty_and_out_of_range_queries_return_zero:
  "(samples h = [] \<longrightarrow>
      fst (h_Min h) = 0 \<and> fst (h_Max h) = 0 \<and> h_Mean h = 0 \<and> h_StdDev h = 0 \<and>
      map_sum id fst (h_Percentile h p) = Inr 0) \<and>
   (f64_less q (Fin 0) \<or> f64_less (Fin 100) q \<longrightarrow>
      map_sum id fst (h_Percentile g q) = Inr 0)"
  by (simp add: empty_queries percentile_out_of_range)

theorem empty_and_out_of_range_queries_return_zero_witness:
  "samples (NewLatencyHistogram 0) = [] \<and>
   fst (h_Min (NewLatencyHistogram 0)) = 0 \<and> fst (h_Max (NewLatencyHistogram 0)) = 0 \<and>
   h_Mean (NewLatencyHistogram 0) = 0 \<and> h_StdDev (NewLatencyHistogram 0) = 0 \<and>
   map_sum id fst (h_Percentile (NewLatencyHistogram 0) (Fin 50)) = Inr 0 \<and>
   f64_less (Fin 100) (Fin 101) \<and>
   map_sum id fst (h_Percentile (h_AddSamples (NewLatencyHistogram 1) [5000000]) (Fin 101)) = Inr 0"
  using empty_and_out_of_range_queries_return_zero
    [of "NewLatencyHistogram 0" "Fin 50" "Fin 101" "h_AddSamples (NewLatencyHistogram 1) [5000000]"]
  by (simp add: NewLatencyHistogram_def)




text \<open>Four evaluations of the percentile code.\<close>

lemma percentile_30_of_two_equal:
  "map_sum id fst (h_Percentile (h_AddSamples (NewLatencyHistogram 2) [3000, 3000]) (Fin 30))
     = Inr 2000"
  by code_simp

lemma min_of_two_equal:
  "fst (h_Min (h_AddSamples (NewLatencyHistogram 2) [3000, 3000])) = 3000"
  by code_simp

lemma p50_of_two_large:
  "map_sum id fst (h_P50 (h_AddSamples (NewLatencyHistogram 2)
       [9007199254740987000, 9007199254740987000])) = Inr 9007199254740987000"
  by code_simp

lemma p90_of_two_large:
  "map_sum id fst (h_P90 (h_AddSamples (NewLatencyHistogram 2)
       [9007199254740987000, 9007199254740987000])) = Inr 9007199254740986000"
  by code_simp

text \<open>
  C3. The claim: for every non-empty distribution Min() \<open>\<le>\<close> P50() \<open>\<le>\<close> P90() \<open>\<le>\<close> P99()
  \<open>\<le>\<close> P999() \<open>\<le>\<close> Max(), and interpolation never leaves [Min(), Max()]. The code
  interpolates in \<open>float64\<close> and truncates the result, so a rounding error below an
  integer costs a whole microsecond. Two samples of 3 microseconds: Percentile(30) computes
  3 * 0.7 + 3 * 0.3 as 2.9999999999999996 and returns 2 microseconds, below Min() = 3. Two
  samples of 9007199254740987 microseconds: P50() returns the sample and P90() one
  microsecond less, so P50() > P90().
\<close>

theorem percentile_interpolation_leaves_range:
  "map_sum id fst (h_Percentile (h_AddSamples (NewLatencyHistogram 2) [3000, 3000]) (Fin 30))
     = Inr 2000 \<and>
   fst (h_Min (h_AddSamples (NewLatencyHistogram 2) [3000, 3000])) = 3000 \<and>
   map_sum id fst (h_P50 (h_AddSamples (NewLatencyHistogram 2)
       [9007199254740987000, 9007199254740987000])) = Inr 9007199254740987000 \<and>
   map_sum id fst (h_P90 (h_AddSamples (NewLatencyHistogram 2)
       [9007199254740987000, 9007199254740987000])) = Inr 9007199254740986000"
  by (simp only: percentile_30_of_two_equal min_of_two_equal p50_of_two_large p90_of_two_large
      simp_thms)

text \<open>
  C1. The claim: with two or more samples StdDev() is the square root of the population
  variance. The code's \<open>sqrt\<close> runs ten Newton steps from \<open>z = x\<close>, which roughly halve \<open>z\<close>
  until it is near the root: they have not converged once the variance exceeds a few
  thousand. For the samples 0 and 2000 microseconds the mean is 1000, the variance 1000000
  and the standard deviation 1000 microseconds; the code returns 1296 microseconds.
\<close>

theorem stddev_of_0_and_2000_microseconds:
  "h_StdDev (h_AddSamples (NewLatencyHistogram 2) [0, 2000000]) = 1296000"
  by code_simp

section \<open>Claims about the detector\<close>

text \<open>
  C2. For every successful Detect invocation the Severity is "Severe" if the p99 increase
  exceeds 5.0, otherwise "Moderate" if it exceeds 3.0, otherwise "Mild" if it exceeds 1.5 or
  the p50 increase exceeds 2.0, otherwise "None"; and IsBufferbloated is true exactly when
  the p50 increase exceeds 1.5 or the p99 increase exceeds 2.0.
\<close>

theorem detect_classification:
  assumes "Detect probeFn ticks idleCount loadCount s = (Inr r, s')"
  shows "Severity r =
           (if f64_less (Fin 5) (P99Increase r) then ''Severe''
            else if f64_less (Fin 3) (P99Increase r) then ''Moderate''
            else if f64_less (Fin (3 / 2)) (P99Increase r) \<or> f64_less (Fin 2) (P50Increase r)
            then ''Mild''
            else ''None'') \<and>
         (IsBufferbloated r \<longleftrightarrow>
            f64_less (Fin (3 / 2)) (P50Increase r) \<or> f64_less (Fin 2) (P99Increase r))"
proof -
  from Detect_Inr [OF assms] obtain idleHist loadHist
    where "Detect_calculate idleHist loadHist = Inr r" by blast
  from Detect_calculate_Inr [OF this] obtain r0 where "r = Detect_ratios r0" by blast
  then show ?thesis
    using Detect_ratios_Severity [of r0] Detect_ratios_IsBufferbloated [of r0] by simp
qed

text \<open>
  A run of \<open>Detect\<close>: the idle probe returns two samples of 10 ms, every probe under load
  one sample of 60 ms.
\<close>

lemma example_run:
  "Detect (\<lambda>(count::int) (s::unit). (Inr (if count = 1 then [60000000] else [10000000, 10000000]) :: string + int list, s))
          (\<lambda>i. 1) 2 3 ()
   = (Inr \<lparr>IdleLatencyP50 = 10000000, IdleLatencyP99 = 10000000, IdleLatencyMax = 10000000,
            LoadLatencyP50 = 60000000, LoadLatencyP99 = 60000000, LoadLatencyMax = 60000000,
            P50Increase = Fin 6, P99Increase = Fin 6, MaxIncrease = Fin 6,
            IsBufferbloated = True, Severity = ''Severe'',
            Explanation = ''Latency increased dramatically under load. Buffer bloat is severe - consider optimizing buffer sizes or traffic shaping.''\<rparr>, ())"
  by code_simp

theorem detect_classification_witness:
  "Detect (\<lambda>(count::int) (s::unit). (Inr (if count = 1 then [60000000] else [10000000, 10000000]) :: string + int list, s))
          (\<lambda>i. 1) 2 3 ()
   = (Inr \<lparr>IdleLatencyP50 = 10000000, IdleLatencyP99 = 10000000, IdleLatencyMax = 10000000,
            LoadLatencyP50 = 60000000, LoadLatencyP99 = 60000000, LoadLatencyMax = 60000000,
            P50Increase = Fin 6, P99Increase = Fin 6, MaxIncrease = Fin 6,
            IsBufferbloated = True, Severity = ''Severe'',
            Explanation = ''Latency increased dramatically under load. Buffer bloat is severe - consider optimizing buffer sizes or traffic shaping.''\<rparr>, ()) \<and>
   f64_less (Fin 5) (Fin 6) \<and> (f64_less (Fin (3 / 2)) (Fin 6) \<or> f64_less (Fin 2) (Fin 6))"
  using detect_classification [OF example_run] example_run by simp






end
